(* ===== verification/Prelude.thy ===== *)
theory Prelude
  imports Main "HOL-Library.AList"
begin

text \<open>
  Shared vocabulary of the development: the names of the model's basic types, the
  named theorem collections the component theories fill, and generic lemmas on
  strings (separator splitting, the inverse of joining) and on association lists
  that several components use.
\<close>

named_theorems api_simps "characteristic equations of the REST wrapper operations"
named_theorems menu_simps "characteristic equations of the menu handlers"

type_synonym spotify_id = string
type_synonym uri = string

subsection \<open>Splitting a string at a separator character\<close>

text \<open>
  The receiving side of a comma-joined query parameter splits it at the separator.
  \<open>split_on c s\<close> returns the maximal pieces of \<open>s\<close> between occurrences of \<open>c\<close>;
  it always has at least one piece, as the usual string split does.
\<close>

fun split_on :: "char \<Rightarrow> string \<Rightarrow> string list" where
  "split_on c [] = [[]]"
| "split_on c (x # xs) =
     (if x = c then [] # split_on c xs
      else (case split_on c xs of [] \<Rightarrow> [[x]] | w # ws \<Rightarrow> (x # w) # ws))"

lemma split_on_nonempty [simp]: "split_on c s \<noteq> []"
  by (induction s) (auto split: list.split)

lemma split_on_free [simp]: "c \<notin> set s \<Longrightarrow> split_on c s = [s]"
  by (induction s) auto

lemma split_on_append_sep:
  "c \<notin> set u \<Longrightarrow> split_on c (u @ c # r) = u # split_on c r"
proof (induction u)
  case Nil
  then show ?case by simp
next
  case (Cons x u)
  then show ?case by auto
qed

subsection \<open>Scanning for a separator\<close>

lemma takeWhile_neq_append [simp]:
  "c \<notin> set p \<Longrightarrow> takeWhile (\<lambda>x. x \<noteq> c) (p @ c # q) = p"
  by (induction p) auto

lemma dropWhile_neq_append [simp]:
  "c \<notin> set p \<Longrightarrow> dropWhile (\<lambda>x. x \<noteq> c) (p @ c # q) = c # q"
  by (induction p) auto

lemma takeWhile_neq_all [simp]: "c \<notin> set p \<Longrightarrow> takeWhile (\<lambda>x. x \<noteq> c) p = p"
  by (induction p) auto

subsection \<open>Association lists\<close>

lemma map_of_update_same [simp]: "map_of (AList.update k v al) k = Some v"
  by (simp add: update_conv')

lemma map_of_update_other [simp]:
  "k' \<noteq> k \<Longrightarrow> map_of (AList.update k v al) k' = map_of al k'"
  by (simp add: update_conv')

subsection \<open>Removing and updating by key\<close>

lemma fold_remove1_prefix: "fold remove1 xs (xs @ zs) = zs"
  by (induction xs) simp_all

lemma fold_remove1_self [simp]: "fold remove1 xs xs = []"
  using fold_remove1_prefix [of xs "[]"] by simp

lemma map_upds_map_keys:
  "distinct ks \<Longrightarrow> length ks = length vs \<Longrightarrow> map (f(ks [\<mapsto>] vs)) ks = map Some vs"
proof (induction ks arbitrary: vs f)
  case Nil
  then show ?case by simp
next
  case (Cons k ks)
  then obtain v vs' where vs: "vs = v # vs'" by (cases vs) auto
  with Cons.prems have IH: "map (f(ks [\<mapsto>] vs')) ks = map Some vs'" by (intro Cons.IH) simp_all
  from Cons.prems have "k \<notin> set ks" by simp
  then have "map ((f(k \<mapsto> v))(ks [\<mapsto>] vs')) ks = map (f(ks [\<mapsto>] vs')) ks"
    and "((f(k \<mapsto> v))(ks [\<mapsto>] vs')) k = Some v"
    by simp_all
  with IH vs show ?case by simp
qed

lemma those_map_Some [simp]: "those (map Some xs) = Some xs"
  by (induction xs) auto

lemma those_map_Some_comp [simp]: "those (map (Some \<circ> f) xs) = Some (map f xs)"
  by (induction xs) auto

end
