(* ===== verification/Json.thy ===== *)
theory Json
  imports Prelude
begin

text \<open>
  The helper library the REST wrappers call and which is not part of the excerpt
  under src/: JSON values as nlohmann::json holds them, the assignment
  \<open>j[key] = v\<close>, \<open>lib::json::set\<close> (assign only when an optional is present),
  \<open>lib::fmt::format\<close> (substitute each \<open>{}\<close> placeholder in order) and
  \<open>lib::strings::join\<close>. These are modelled from the specification ("only present
  fields are serialized"; endpoint templates such as \<open>playlists/{}\<close>).
\<close>

datatype json =
    JNull
  | JBool bool
  | JInt int
  | JString string
  | JArray "json list"
  | JObject "(string \<times> json) list"

datatype json_error = TypeError string

text \<open>
  \<open>j[key] = v\<close>: on an object the key is inserted or overwritten; a null value is
  first turned into an empty object; on any other value nlohmann::json throws a
  type error.
\<close>

fun json_put :: "json \<Rightarrow> string \<Rightarrow> json \<Rightarrow> json_error + json" where
  "json_put (JObject kvs) k v = Inr (JObject (AList.update k v kvs))"
| "json_put JNull k v = Inr (JObject [(k, v)])"
| "json_put _ k v = Inl (TypeError ''cannot use operator[] with a string argument'')"

text \<open>\<open>json.at(key)\<close> / \<open>json.contains(key)\<close> on an object.\<close>

fun json_get :: "json \<Rightarrow> string \<Rightarrow> json option" where
  "json_get (JObject kvs) k = map_of kvs k"
| "json_get _ k = None"

fun json_keys :: "json \<Rightarrow> string set" where
  "json_keys (JObject kvs) = fst ` set kvs"
| "json_keys _ = {}"

text \<open>\<open>lib::json::set(json, key, optional)\<close>: assign only when the optional has a value.\<close>

definition json_set :: "json \<Rightarrow> string \<Rightarrow> json option \<Rightarrow> json_error + json" where
  "json_set j k v = (case v of None \<Rightarrow> Inr j | Some x \<Rightarrow> json_put j k x)"

text \<open>
  \<open>lib::fmt::format(fmt, args...)\<close>: each \<open>{}\<close> of the template is replaced by the
  next argument, in order; a placeholder with no argument left stays as it is.
\<close>

fun fmt_format :: "string \<Rightarrow> string list \<Rightarrow> string" where
  "fmt_format (CHR ''{'' # CHR ''}'' # rest) (a # as) = a @ fmt_format rest as"
| "fmt_format (c # rest) as = c # fmt_format rest as"
| "fmt_format [] as = []"

text \<open>\<open>lib::strings::join(items, separator)\<close>.\<close>

fun strings_join :: "string list \<Rightarrow> string \<Rightarrow> string" where
  "strings_join [] sep = []"
| "strings_join [x] sep = x"
| "strings_join (x # y # xs) sep = x @ sep @ strings_join (y # xs) sep"

subsection \<open>Lemmas\<close>

lemma json_set_object:
  "json_set (JObject kvs) k v =
     Inr (case v of None \<Rightarrow> JObject kvs | Some x \<Rightarrow> JObject (AList.update k x kvs))"
  by (simp add: json_set_def split: option.split)

lemma json_get_update:
  "json_get (JObject (AList.update k v kvs)) k' = (if k' = k then Some v else map_of kvs k')"
  by (simp add: update_conv')

lemma json_keys_update [simp]:
  "json_keys (JObject (AList.update k v kvs)) = insert k (json_keys (JObject kvs))"
  by (simp add: dom_update)

lemma set_strings_join:
  "set (strings_join xs sep) \<subseteq> (\<Union>u \<in> set xs. set u) \<union> set sep"
  by (induction xs sep rule: strings_join.induct) auto

lemma strings_join_free:
  "\<forall>u \<in> set xs. c \<notin> set u \<Longrightarrow> c \<notin> set sep \<Longrightarrow> c \<notin> set (strings_join xs sep)"
  using set_strings_join by fastforce

text \<open>Joining with a one-character separator and splitting at it are inverse.\<close>

lemma split_on_join:
  "xs \<noteq> [] \<Longrightarrow> \<forall>u \<in> set xs. c \<notin> set u \<Longrightarrow> split_on c (strings_join xs [c]) = xs"
proof (induction xs "[c]" rule: strings_join.induct)
  case (3 x y xs)
  then show ?case by (simp add: split_on_append_sep)
qed simp_all

end
