(* ===== verification/Api.thy ===== *)
theory Api
  imports Json
begin

text \<open>
  The transport the wrappers call (\<open>lib::spt::api::get/post/put/del/get_items\<close>),
  which is not in the excerpt and is modelled from the specification: every wrapper
  issues exactly one call against a relative URL of the Web API, with an optional
  JSON body, and is answered later through a single-shot callback. \<open>get(url)\<close>,
  \<open>post(url, json)\<close>, \<open>post(url)\<close>, \<open>put(url, json)\<close> and \<open>del(url, json)\<close> are
  the requests with the verbs GET, POST, POST, PUT and DELETE and the body given
  (none for \<open>get\<close> and the body-less \<open>post\<close>). A call is a value
  of \<open>api_call\<close>: a plain request, a paginated item fetch (\<open>get_items(url)\<close>), or a
  heap-allocated pagination cursor (\<open>new pagination(url, request)\<close>). For the last two
  the call records only the first page's URL: how pages are fetched and followed is
  the library's code, which is not in the excerpt and is not modelled.
\<close>

datatype http_verb = GET | POST | PUT | DELETE

record request =
  req_verb :: http_verb
  req_url :: string
  req_body :: "json option"

datatype api_call =
    Request request
  | GetItems string
  | NewPagination string

subsection \<open>Reading a request URL\<close>

text \<open>
  How the Web API reads a relative URL: the path before the first \<open>?\<close>, and the
  query after it as \<open>&\<close>-separated \<open>key=value\<close> parameters. These are the
  receiving side, used to state what the wrappers' URLs carry.
\<close>

definition url_path :: "string \<Rightarrow> string" where
  "url_path u = takeWhile (\<lambda>c. c \<noteq> CHR ''?'') u"

definition url_query :: "string \<Rightarrow> string" where
  "url_query u = drop 1 (dropWhile (\<lambda>c. c \<noteq> CHR ''?'') u)"

definition query_params :: "string \<Rightarrow> (string \<times> string) list" where
  "query_params q =
     map (\<lambda>p. (takeWhile (\<lambda>c. c \<noteq> CHR ''='') p, drop 1 (dropWhile (\<lambda>c. c \<noteq> CHR ''='') p)))
         (split_on CHR ''&'' q)"

definition query_param :: "string \<Rightarrow> string \<Rightarrow> string option" where
  "query_param u k = map_of (query_params (url_query u)) k"

lemma url_path_Nil [simp]: "url_path [] = []"
  and url_path_Cons [simp]: "url_path (c # s) = (if c = CHR ''?'' then [] else c # url_path s)"
  by (simp_all add: url_path_def)

lemma url_path_append_free [simp]: "CHR ''?'' \<notin> set a \<Longrightarrow> url_path (a @ b) = a @ url_path b"
  by (induction a) auto

lemma url_path_append_query:
  "CHR ''?'' \<notin> set p \<Longrightarrow> url_path (p @ CHR ''?'' # q) = p"
  by (simp add: url_path_def)

lemma url_query_append_query:
  "CHR ''?'' \<notin> set p \<Longrightarrow> url_query (p @ CHR ''?'' # q) = q"
  by (simp add: url_query_def)

lemma url_path_plain [simp]: "CHR ''?'' \<notin> set p \<Longrightarrow> url_path p = p"
  by (simp add: url_path_def)

lemma query_param_single:
  assumes "CHR ''?'' \<notin> set p" "CHR ''&'' \<notin> set v" "CHR ''&'' \<notin> set k" "CHR ''='' \<notin> set k"
  shows "query_param (p @ CHR ''?'' # k @ CHR ''='' # v) k = Some v"
proof -
  have "CHR ''&'' \<notin> set (k @ CHR ''='' # v)" using assms(2,3) by simp
  then show ?thesis
    using assms by (simp add: query_param_def url_query_append_query query_params_def)
qed

end
