(* ===== verification/Playlists.thy ===== *)
theory Playlists
  imports Api
begin

text \<open>
  The playlist wrappers of \<open>src/lib/src/spotifyapi/playlists.cpp\<close>: each function
  builds a URL (and a JSON body where the endpoint takes one) and issues one call.
  A wrapper is modelled as the \<open>api_call\<close> it issues; \<open>create_playlist\<close> returns a
  sum because nlohmann's assignment can throw.
\<close>

subsection \<open>Data\<close>

text \<open>
  \<open>lib::spt::playlist\<close> and \<open>lib::spt::playlist_details\<close> (declared outside the
  excerpt); the wrappers read only the playlist's id, and send the details as a JSON
  object with the four editable fields.
\<close>

record playlist =
  pl_id :: spotify_id
  pl_name :: string
  pl_description :: string
  pl_is_public :: bool
  pl_collaborative :: bool

record playlist_details =
  pd_name :: string
  pd_description :: string
  pd_is_public :: bool
  pd_collaborative :: bool

definition playlist_details_json :: "playlist_details \<Rightarrow> json" where
  "playlist_details_json d =
     JObject [(''name'', JString (pd_name d)), (''description'', JString (pd_description d)),
              (''public'', JBool (pd_is_public d)), (''collaborative'', JBool (pd_collaborative d))]"

subsection \<open>The wrappers\<close>

definition bind_sum :: "'e + 'a \<Rightarrow> ('a \<Rightarrow> 'e + 'b) \<Rightarrow> 'e + 'b" where
  "bind_sum m f = (case m of Inl e \<Rightarrow> Inl e | Inr a \<Rightarrow> f a)"

text \<open>\<open>create_playlist\<close> (lines 10--25): the name always, the three optionals only when present.\<close>

definition create_playlist ::
  "string \<Rightarrow> string option \<Rightarrow> bool option \<Rightarrow> bool option \<Rightarrow> json_error + api_call" where
  "create_playlist name description is_public is_collaborative =
     (let json = JObject [(''name'', JString name)] in
      bind_sum (json_set json ''description'' (map_option JString description)) (\<lambda>json.
      bind_sum (json_set json ''public'' (map_option JBool is_public)) (\<lambda>json.
      bind_sum (json_set json ''collaborative'' (map_option JBool is_collaborative)) (\<lambda>json.
      Inr (Request \<lparr>req_verb = POST, req_url = ''me/playlists'', req_body = Some json\<rparr>)))))"

definition playlists :: api_call where
  "playlists = GetItems ''me/playlists?limit=50''"

definition playlist_get :: "spotify_id \<Rightarrow> api_call" where
  "playlist_get playlist_id = Request \<lparr>req_verb = GET, req_url = fmt_format ''playlists/{}'' [playlist_id], req_body = None\<rparr>"

definition edit_playlist :: "spotify_id \<Rightarrow> playlist_details \<Rightarrow> api_call" where
  "edit_playlist playlist_id details =
     Request \<lparr>req_verb = PUT, req_url = fmt_format ''playlists/{}'' [playlist_id],
              req_body = Some (playlist_details_json details)\<rparr>"

definition playlist_tracks :: "playlist \<Rightarrow> api_call" where
  "playlist_tracks pl =
     (let url = fmt_format ''playlists/{}/tracks?market=from_token&limit=50'' [pl_id pl]
      in GetItems url)"

definition playlist_tracks_pagination :: "playlist \<Rightarrow> api_call" where
  "playlist_tracks_pagination pl =
     (let url = fmt_format ''playlists/{}/tracks?market=from_token&limit=50'' [pl_id pl]
      in NewPagination url)"

definition add_to_playlist :: "spotify_id \<Rightarrow> uri list \<Rightarrow> api_call" where
  "add_to_playlist playlist_id track_uris =
     Request \<lparr>req_verb = POST,
       req_url = fmt_format ''playlists/{}/tracks?uris={}'' [playlist_id, strings_join track_uris '',''],
       req_body = None\<rparr>"

text \<open>
  \<open>remove_from_playlist\<close> (lines 67--86): the loop pushes one object per (position,
  URI) pair onto a JSON array, in order.
\<close>

definition remove_track_entry :: "int \<times> uri \<Rightarrow> json" where
  "remove_track_entry track =
     JObject [(''uri'', JString (snd track)), (''positions'', JArray [JInt (fst track)])]"

fun remove_tracks_loop :: "(int \<times> uri) list \<Rightarrow> json list \<Rightarrow> json list" where
  "remove_tracks_loop [] tracks = tracks"
| "remove_tracks_loop (track # rest) tracks = remove_tracks_loop rest (tracks @ [remove_track_entry track])"

definition remove_from_playlist :: "spotify_id \<Rightarrow> (int \<times> uri) list \<Rightarrow> api_call" where
  "remove_from_playlist playlist_id track_index_uris =
     (let tracks = remove_tracks_loop track_index_uris [] in
      Request \<lparr>req_verb = DELETE, req_url = fmt_format ''playlists/{}/tracks'' [playlist_id],
               req_body = Some (JObject [(''tracks'', JArray tracks)])\<rparr>)"

subsection \<open>What the Web API reads back\<close>

text \<open>
  The endpoint a call reaches (verb and path, the query stripped), and the decoder the
  service applies to a track-removal body. Both are the receiving side, used to state
  what the wrappers send.
\<close>

fun call_endpoint :: "api_call \<Rightarrow> http_verb \<times> string" where
  "call_endpoint (Request r) = (req_verb r, url_path (req_url r))"
| "call_endpoint (GetItems u) = (GET, url_path u)"
| "call_endpoint (NewPagination u) = (GET, url_path u)"

fun decode_track_entry :: "json \<Rightarrow> (int \<times> uri) option" where
  "decode_track_entry (JObject kvs) =
     (case (map_of kvs ''uri'', map_of kvs ''positions'') of
        (Some (JString u), Some (JArray [JInt i])) \<Rightarrow> Some (i, u)
      | _ \<Rightarrow> None)"
| "decode_track_entry _ = None"

definition decode_remove_body :: "json \<Rightarrow> (int \<times> uri) list option" where
  "decode_remove_body b =
     (case json_get b ''tracks'' of Some (JArray ts) \<Rightarrow> those (map decode_track_entry ts) | _ \<Rightarrow> None)"

subsection \<open>Lemmas\<close>

lemma bind_sum_Inr [simp]: "bind_sum (Inr a) f = f a"
  by (simp add: bind_sum_def)

lemma bind_sum_json_set:
  "bind_sum (json_set (JObject kvs) k v) f =
     f (case v of None \<Rightarrow> JObject kvs | Some x \<Rightarrow> JObject (AList.update k x kvs))"
  by (simp add: json_set_object)

lemma decode_track_entry_inv [simp]: "decode_track_entry (remove_track_entry t) = Some t"
  by (cases t) (simp add: remove_track_entry_def)

lemma tracks_url [api_simps]:
  "fmt_format ''playlists/{}/tracks'' [pid] = ''playlists/'' @ pid @ ''/tracks''"
  by simp

lemma playlist_url [api_simps]: "fmt_format ''playlists/{}'' [pid] = ''playlists/'' @ pid"
  by simp

lemma tracks_query_url [api_simps]:
  "fmt_format ''playlists/{}/tracks?market=from_token&limit=50'' [pid] =
     (''playlists/'' @ pid @ ''/tracks'') @ CHR ''?'' # ''market=from_token&limit=50''"
  by simp

lemma add_tracks_url [api_simps]:
  "fmt_format ''playlists/{}/tracks?uris={}'' [pid, us] =
     (''playlists/'' @ pid @ ''/tracks'') @ CHR ''?'' # ''uris'' @ CHR ''='' # us"
  by simp

text \<open>
  C1: \<open>create_playlist\<close> never throws and posts to \<open>me/playlists\<close> an object that holds
  the name, holds each optional field exactly when it was given, with its value, and
  holds no other key.
\<close>

theorem create_playlist_body:
  "\<exists>body. create_playlist name d p c =
       Inr (Request \<lparr>req_verb = POST, req_url = ''me/playlists'', req_body = Some body\<rparr>) \<and>
     json_get body ''name'' = Some (JString name) \<and>
     json_get body ''description'' = map_option JString d \<and>
     json_get body ''public'' = map_option JBool p \<and>
     json_get body ''collaborative'' = map_option JBool c \<and>
     json_keys body = {''name''} \<union> (if d = None then {} else {''description''})
        \<union> (if p = None then {} else {''public''}) \<union> (if c = None then {} else {''collaborative''})"
  by (cases d; cases p; cases c) (auto simp: create_playlist_def bind_sum_json_set update_conv')

lemma remove_tracks_loop_map:
  "remove_tracks_loop track_index_uris tracks = tracks @ map remove_track_entry track_index_uris"
  by (induction track_index_uris arbitrary: tracks) simp_all

text \<open>
  C2: \<open>remove_from_playlist\<close> sends DELETE to \<open>playlists/{id}/tracks\<close> with a body
  from which the service decodes exactly the given (position, URI) pairs, in order:
  the array built by the \<open>push_back\<close> loop round-trips.
\<close>

theorem remove_from_playlist_roundtrip:
  "\<exists>r. remove_from_playlist pid track_index_uris = Request r \<and> req_verb r = DELETE \<and>
     req_url r = ''playlists/'' @ pid @ ''/tracks'' \<and>
     map_option decode_remove_body (req_body r) = Some (Some track_index_uris)"
  by (simp add: remove_from_playlist_def remove_tracks_loop_map decode_remove_body_def
      comp_def)

text \<open>
  C3: \<open>add_to_playlist\<close> posts to \<open>playlists/{id}/tracks\<close>, and splitting its
  \<open>uris\<close> query parameter at commas gives back the URIs it was given, whenever the
  list is not empty, no URI contains a comma or an ampersand and the id contains no
  question mark.
\<close>

theorem add_to_playlist_uris_roundtrip:
  assumes "track_uris \<noteq> []"
    and "\<forall>u \<in> set track_uris. CHR '','' \<notin> set u \<and> CHR ''&'' \<notin> set u"
    and "CHR ''?'' \<notin> set pid"
  shows "\<exists>r. add_to_playlist pid track_uris = Request r \<and> req_verb r = POST \<and>
           url_path (req_url r) = ''playlists/'' @ pid @ ''/tracks'' \<and>
           map_option (split_on CHR '','') (query_param (req_url r) ''uris'') = Some track_uris"
proof -
  let ?path = "''playlists/'' @ pid @ ''/tracks''"
  let ?joined = "strings_join track_uris '',''"
  let ?url = "?path @ CHR ''?'' # ''uris'' @ CHR ''='' # ?joined"
  have amp: "CHR ''&'' \<notin> set ?joined"
    using assms(2) by (intro strings_join_free) auto
  have path: "CHR ''?'' \<notin> set ?path"
    using assms(3) by simp
  have call: "add_to_playlist pid track_uris = Request \<lparr>req_verb = POST, req_url = ?url, req_body = None\<rparr>"
    unfolding add_to_playlist_def add_tracks_url ..
  have "query_param ?url ''uris'' = Some ?joined"
    using path amp by (intro query_param_single) simp_all
  moreover have "url_path ?url = ?path"
    using path by (rule url_path_append_query)
  moreover have "split_on CHR '','' ?joined = track_uris"
    using assms(1,2) by (simp add: split_on_join)
  ultimately show ?thesis
    unfolding call by simp
qed

theorem add_to_playlist_uris_roundtrip_witness:
  "(\<exists>r. add_to_playlist ''37i9dQZF1DXcBWIGoYBM5M'' [''spotify:track:1'', ''spotify:track:2''] = Request r \<and>
      req_verb r = POST \<and> url_path (req_url r) = ''playlists/37i9dQZF1DXcBWIGoYBM5M/tracks'' \<and>
      map_option (split_on CHR '','') (query_param (req_url r) ''uris'') =
        Some [''spotify:track:1'', ''spotify:track:2''])"
proof -
  have h1: "[''spotify:track:1'', ''spotify:track:2''] \<noteq> []" by simp
  have h2: "\<forall>u \<in> set [''spotify:track:1'', ''spotify:track:2'']. CHR '','' \<notin> set u \<and> CHR ''&'' \<notin> set u"
    by simp
  have h3: "CHR ''?'' \<notin> set ''37i9dQZF1DXcBWIGoYBM5M''" by simp
  show ?thesis
    using add_to_playlist_uris_roundtrip [OF h1 h2 h3] by simp
qed

text \<open>
  C4: every wrapper reaches the endpoint the Web API documents for it: the verb and
  the path (query stripped) are those of section 6 of the specification, for any id
  without a question mark.
\<close>

theorem wrapper_endpoints:
  assumes "CHR ''?'' \<notin> set pid" and "CHR ''?'' \<notin> set (pl_id pl)"
  shows "create_playlist name d p c \<in> Inr ` {call. call_endpoint call = (POST, ''me/playlists'')}
    \<and> call_endpoint playlists = (GET, ''me/playlists'')
    \<and> call_endpoint (playlist_get pid) = (GET, ''playlists/'' @ pid)
    \<and> call_endpoint (edit_playlist pid details) = (PUT, ''playlists/'' @ pid)
    \<and> call_endpoint (playlist_tracks pl) = (GET, ''playlists/'' @ pl_id pl @ ''/tracks'')
    \<and> call_endpoint (playlist_tracks_pagination pl) = (GET, ''playlists/'' @ pl_id pl @ ''/tracks'')
    \<and> call_endpoint (add_to_playlist pid uris) = (POST, ''playlists/'' @ pid @ ''/tracks'')
    \<and> call_endpoint (remove_from_playlist pid tracks) = (DELETE, ''playlists/'' @ pid @ ''/tracks'')"
proof -
  have c: "create_playlist name d p c \<in> Inr ` {call. call_endpoint call = (POST, ''me/playlists'')}"
    by (cases d; cases p; cases c)
      (auto simp: create_playlist_def bind_sum_json_set)
  show ?thesis
    using c assms by (simp add: api_simps playlists_def playlist_get_def edit_playlist_def playlist_tracks_def
        playlist_tracks_pagination_def add_to_playlist_def remove_from_playlist_def)
qed

theorem wrapper_endpoints_witness:
  "CHR ''?'' \<notin> set ''pl1'' \<and> CHR ''?'' \<notin> set (pl_id \<lparr>pl_id = ''pl2'', pl_name = ''Mix'',
      pl_description = '''', pl_is_public = True, pl_collaborative = False\<rparr>) \<and>
   call_endpoint (playlist_get ''pl1'') = (GET, ''playlists/pl1'') \<and>
   call_endpoint (add_to_playlist ''pl1'' [''spotify:track:1'']) = (POST, ''playlists/pl1/tracks'')"
proof -
  let ?pl = "\<lparr>pl_id = ''pl2'', pl_name = ''Mix'', pl_description = '''', pl_is_public = True,
      pl_collaborative = False\<rparr>"
  have h1: "CHR ''?'' \<notin> set ''pl1''" by simp
  have h2: "CHR ''?'' \<notin> set (pl_id ?pl)" by simp
  show ?thesis
    using wrapper_endpoints [OF h1 h2, of "''n''" None None None "\<lparr>pd_name = ''n'', pd_description = '''',
        pd_is_public = True, pd_collaborative = False\<rparr>" "[''spotify:track:1'']" "[]"] h1 h2
    by simp
qed

end
