(* ===== verification/Qt.thy ===== *)
theory Qt
  imports Prelude
begin

text \<open>
  The part of Qt's widget semantics the menu relies on, modelled from Qt's documented
  behaviour (the toolkit is not in the excerpt). A \<open>QAction\<close> is a record of the
  properties the menu reads or writes; each setter the source calls is a value of
  \<open>action_call\<close>, applied by \<open>apply_call\<close>. Two rules of Qt matter below:
  \<open>setChecked\<close> has no effect on an action that is not checkable, and
  \<open>setCheckable(false)\<close> also clears the check mark. Triggering a checkable action
  toggles its check mark before \<open>triggered\<close> is emitted.

  QAction objects live in a store indexed by their address (\<open>aid\<close>): a menu holds
  a list of addresses, and \<open>removeAction\<close> only detaches an address from that list.
  The object stays alive because the menu still owns it.
\<close>

type_synonym aid = nat

record qaction =
  act_text :: string
  act_enabled :: bool
  act_visible :: bool
  act_checkable :: bool
  act_checked :: bool
  act_data :: string

datatype action_call =
    SetText string
  | SetDisabled bool
  | SetVisible bool
  | SetCheckable bool
  | SetChecked bool
  | SetData string

fun apply_call :: "action_call \<Rightarrow> qaction \<Rightarrow> qaction" where
  "apply_call (SetText t) a = a\<lparr>act_text := t\<rparr>"
| "apply_call (SetDisabled b) a = a\<lparr>act_enabled := \<not> b\<rparr>"
| "apply_call (SetVisible b) a = a\<lparr>act_visible := b\<rparr>"
| "apply_call (SetCheckable b) a =
     (if b then a\<lparr>act_checkable := True\<rparr> else a\<lparr>act_checkable := False, act_checked := False\<rparr>)"
| "apply_call (SetChecked b) a = (if act_checkable a then a\<lparr>act_checked := b\<rparr> else a)"
| "apply_call (SetData d) a = a\<lparr>act_data := d\<rparr>"

text \<open>\<open>new QAction(text)\<close>: enabled, visible, not checkable, no data.\<close>

definition new_action :: "string \<Rightarrow> qaction" where
  "new_action t = \<lparr>act_text = t, act_enabled = True, act_visible = True, act_checkable = False,
                   act_checked = False, act_data = []\<rparr>"

end
