(* ===== verification/DeviceMenu.thy ===== *)
theory DeviceMenu
  imports Qt
begin

text \<open>
  The device submenu of \<open>MainMenu\<close> (\<open>src/src/menu/mainmenu.cpp\<close>, lines 34--42 and
  100--149). The state the handlers touch is the record \<open>device_menu_state\<close>: the
  \<open>deviceMenu\<close> pointer with the addresses of its actions (\<open>None\<close> is
  \<open>nullptr\<close>), the store of live QAction objects, the Spotify requests still waiting
  for their callback (each with what its lambda captured), and the main window's
  status bar. The full menu record of theory \<open>MainMenu\<close> extends this one, so every
  handler here is stated over the extension \<open>'a device_menu_state_scheme\<close>.
\<close>

text \<open>\<open>lib::spt::device\<close> (declared outside the excerpt).\<close>

record device =
  dev_id :: spotify_id
  dev_name :: string
  dev_is_active :: bool

text \<open>
  The two asynchronous Spotify calls of the submenu: \<open>spotify.devices(...)\<close> and
  \<open>spotify.setDevice(id, ...)\<close>, whose lambda captures the triggered action's address.
\<close>

datatype spotify_req = DevicesReq | SetDeviceReq aid spotify_id

record device_menu_state =
  device_menu :: "aid list option"
  store :: "aid \<rightharpoonup> qaction"
  next_aid :: aid
  pending :: "spotify_req list"
  window_status :: "(string \<times> bool) option"
  has_window :: bool

subsection \<open>Menu operations on the action store\<close>

text \<open>\<open>deviceMenu->addAction(text)\<close>: a new action, owned by the menu, appended to it.\<close>

definition menu_add_action ::
  "string \<Rightarrow> 'a device_menu_state_scheme \<Rightarrow> aid \<times> 'a device_menu_state_scheme" where
  "menu_add_action t m =
     (let aid = next_aid m in
      (aid, m\<lparr>device_menu := map_option (\<lambda>ids. ids @ [aid]) (device_menu m),
              store := (store m)(aid \<mapsto> new_action t), next_aid := Suc aid\<rparr>))"

text \<open>Calling setters on the action at an address.\<close>

definition update_action ::
  "aid \<Rightarrow> action_call list \<Rightarrow> 'a device_menu_state_scheme \<Rightarrow> 'a device_menu_state_scheme" where
  "update_action aid cs m = m\<lparr>store := (store m)(aid := map_option (fold apply_call cs) (store m aid))\<rparr>"

subsection \<open>The handlers\<close>

text \<open>\<open>refreshDevices()\<close> (lines 100--102), connected to \<open>aboutToShow\<close>: ask for the devices.\<close>

definition refresh_devices :: "'a device_menu_state_scheme \<Rightarrow> 'a device_menu_state_scheme" where
  "refresh_devices m = m\<lparr>pending := pending m @ [DevicesReq]\<rparr>"

text \<open>Lines 108--110: remove every action of the menu, one at a time.\<close>

definition clear_device_menu :: "'a device_menu_state_scheme \<Rightarrow> 'a device_menu_state_scheme" where
  "clear_device_menu m = m\<lparr>device_menu := map_option (\<lambda>ids. fold remove1 ids ids) (device_menu m)\<rparr>"

text \<open>Lines 119--127: one checkable action per device.\<close>

fun add_devices :: "device list \<Rightarrow> 'a device_menu_state_scheme \<Rightarrow> 'a device_menu_state_scheme" where
  "add_devices [] m = m"
| "add_devices (device # devices) m =
     (let (action, m) = menu_add_action (dev_name device) m in
      add_devices devices
        (update_action action [SetCheckable True, SetChecked (dev_is_active device),
                               SetDisabled (dev_is_active device), SetData (dev_id device)] m))"

text \<open>The callback of \<open>spotify.devices\<close> (lines 102--128).\<close>

definition devices_callback ::
  "device list \<Rightarrow> 'a device_menu_state_scheme \<Rightarrow> 'a device_menu_state_scheme" where
  "devices_callback devices m =
     (if device_menu m = None then m
      else
        let m = clear_device_menu m in
        if devices = [] then
          (let (action, m) = menu_add_action ''No devices found'' m in
           update_action action [SetDisabled True] m)
        else add_devices devices m)"

text \<open>
  \<open>deviceSelected(action)\<close> (lines 131--135): ask Spotify to switch to the device
  whose id is the action's data; the callback captures the action.
\<close>

definition device_selected :: "aid \<Rightarrow> 'a device_menu_state_scheme \<Rightarrow> 'a device_menu_state_scheme" where
  "device_selected action m =
     (case store m action of
        None \<Rightarrow> m
      | Some a \<Rightarrow> m\<lparr>pending := pending m @ [SetDeviceReq action (act_data a)]\<rparr>)"

text \<open>The callback of \<open>spotify.setDevice\<close> (lines 134--148).\<close>

definition set_device_callback ::
  "aid \<Rightarrow> string \<Rightarrow> 'a device_menu_state_scheme \<Rightarrow> 'a device_menu_state_scheme" where
  "set_device_callback action status m =
     (if status \<noteq> [] then
        (let m = update_action action [SetChecked False] m in
         if has_window m then m\<lparr>window_status := Some (''Failed to set device: '' @ status, True)\<rparr>
         else m)
      else update_action action [SetDisabled True] m)"

text \<open>
  Qt's \<open>QMenu::triggered\<close> on a device entry: \<open>QAction::activate\<close> toggles the
  check mark of the (checkable) action first, then the signal reaches the slot.
\<close>

definition trigger_action :: "aid \<Rightarrow> 'a device_menu_state_scheme \<Rightarrow> 'a device_menu_state_scheme" where
  "trigger_action action m =
     m\<lparr>store := (store m)(action := map_option
        (\<lambda>a. if act_checkable a then a\<lparr>act_checked := \<not> act_checked a\<rparr> else a) (store m action))\<rparr>"

subsection \<open>What the user sees\<close>

text \<open>
  The abstract view of the submenu: its entries in order, \<open>None\<close> when the menu
  pointer is null or an entry's address is not a live object. The specification of an
  entry for a device, and of the placeholder shown when there is none.
\<close>

definition menu_view :: "'a device_menu_state_scheme \<Rightarrow> qaction list option" where
  "menu_view m = Option.bind (device_menu m) (\<lambda>ids. those (map (store m) ids))"

definition device_entry :: "device \<Rightarrow> qaction" where
  "device_entry d = \<lparr>act_text = dev_name d, act_enabled = \<not> dev_is_active d, act_visible = True,
                     act_checkable = True, act_checked = dev_is_active d, act_data = dev_id d\<rparr>"

definition no_devices_entry :: qaction where
  "no_devices_entry = \<lparr>act_text = ''No devices found'', act_enabled = False, act_visible = True,
                       act_checkable = False, act_checked = False, act_data = []\<rparr>"

text \<open>
  The well-formedness of the menu's objects: the submenu pointer is set, lists distinct
  live actions, the store holds exactly the actions ever allocated, and every
  \<open>setDevice\<close> callback in flight captured a live action.
\<close>

fun captured :: "spotify_req list \<Rightarrow> aid set" where
  "captured [] = {}"
| "captured (DevicesReq # rs) = captured rs"
| "captured (SetDeviceReq action d # rs) = insert action (captured rs)"

definition menu_wf :: "'a device_menu_state_scheme \<Rightarrow> bool" where
  "menu_wf m \<longleftrightarrow>
     (\<exists>ids. device_menu m = Some ids \<and> distinct ids \<and> set ids \<subseteq> dom (store m)) \<and>
     dom (store m) = {..<next_aid m} \<and>
     captured (pending m) \<subseteq> dom (store m)"

subsection \<open>Lemmas\<close>

lemma clear_device_menu_eq:
  "clear_device_menu m = m\<lparr>device_menu := map_option (\<lambda>_. []) (device_menu m)\<rparr>"
  by (simp add: clear_device_menu_def)

lemma add_devices_eq:
  "add_devices ds m =
     m\<lparr>device_menu := map_option (\<lambda>ids. ids @ [next_aid m..<next_aid m + length ds]) (device_menu m),
       store := (store m)([next_aid m..<next_aid m + length ds] [\<mapsto>] map device_entry ds),
       next_aid := next_aid m + length ds\<rparr>"
proof (induction ds arbitrary: m)
  case Nil
  then show ?case by (cases "device_menu m") simp_all
next
  case (Cons d ds)
  let ?n = "next_aid m"
  let ?m1 = "m\<lparr>device_menu := map_option (\<lambda>ids. ids @ [?n]) (device_menu m),
               next_aid := Suc ?n, store := (store m)(?n \<mapsto> device_entry d)\<rparr>"
  have step: "add_devices (d # ds) m = add_devices ds ?m1"
    by (simp add: menu_add_action_def update_action_def new_action_def device_entry_def Let_def)
  have range: "[?n..<?n + length (d # ds)] = ?n # [Suc ?n..<Suc ?n + length ds]"
    by (simp add: upt_conv_Cons del: upt_Suc)
  have fresh: "?n \<notin> set [Suc ?n..<Suc ?n + length ds]" by (simp del: upt_Suc)
  show ?case
    unfolding step Cons.IH range using fresh
    by (simp add: option.map_comp comp_def del: upt_Suc fun_upd_apply)
qed

lemma devices_callback_nonempty:
  assumes "device_menu m \<noteq> None" and "devices \<noteq> []"
  shows "devices_callback devices m =
     m\<lparr>device_menu := Some [next_aid m..<next_aid m + length devices],
       store := (store m)([next_aid m..<next_aid m + length devices] [\<mapsto>] map device_entry devices),
       next_aid := next_aid m + length devices\<rparr>"
  using assms by (auto simp: devices_callback_def clear_device_menu_eq add_devices_eq)

lemma devices_callback_empty:
  assumes "device_menu m \<noteq> None"
  shows "devices_callback [] m =
     m\<lparr>device_menu := Some [next_aid m], next_aid := Suc (next_aid m),
       store := (store m)(next_aid m \<mapsto> no_devices_entry)\<rparr>"
  using assms
  by (auto simp: devices_callback_def clear_device_menu_eq menu_add_action_def update_action_def
      new_action_def no_devices_entry_def Let_def)

text \<open>
  C5: after the reply to \<open>spotify.devices\<close>, the submenu shows, in order, one entry per
  device, labelled with its name, checkable, checked and disabled exactly when the
  device is active, carrying its id; or the single disabled placeholder when the list
  is empty. Whatever the menu showed before is gone.
\<close>

theorem devices_callback_view:
  assumes "device_menu m \<noteq> None"
  shows "menu_view (devices_callback devices m) =
           Some (if devices = [] then [no_devices_entry] else map device_entry devices)"
proof (cases "devices = []")
  case True
  with assms show ?thesis by (simp add: devices_callback_empty menu_view_def)
next
  case False
  let ?ks = "[next_aid m..<next_aid m + length devices]"
  have "map ((store m)(?ks [\<mapsto>] map device_entry devices)) ?ks = map Some (map device_entry devices)"
    by (rule map_upds_map_keys) simp_all
  with assms False show ?thesis
    by (simp add: devices_callback_nonempty menu_view_def del: upt_Suc)
qed

theorem devices_callback_view_witness:
  "menu_view (devices_callback [\<lparr>dev_id = ''a1'', dev_name = ''Kitchen'', dev_is_active = True\<rparr>,
                                \<lparr>dev_id = ''b2'', dev_name = ''Laptop'', dev_is_active = False\<rparr>]
     \<lparr>device_menu = Some [0], store = [0 \<mapsto> no_devices_entry], next_aid = 1, pending = [],
      window_status = None, has_window = True\<rparr>) =
   Some [\<lparr>act_text = ''Kitchen'', act_enabled = False, act_visible = True, act_checkable = True,
          act_checked = True, act_data = ''a1''\<rparr>,
         \<lparr>act_text = ''Laptop'', act_enabled = True, act_visible = True, act_checkable = True,
          act_checked = False, act_data = ''b2''\<rparr>]"
  using devices_callback_view [of "\<lparr>device_menu = Some [0], store = [0 \<mapsto> no_devices_entry],
      next_aid = 1, pending = [], window_status = None, has_window = True\<rparr>"
      "[\<lparr>dev_id = ''a1'', dev_name = ''Kitchen'', dev_is_active = True\<rparr>,
        \<lparr>dev_id = ''b2'', dev_name = ''Laptop'', dev_is_active = False\<rparr>]"]
  by (simp add: device_entry_def)

text \<open>
  C6: a devices reply never frees an action: every object of the store survives, and
  exactly \<open>max 1 (length devices)\<close> new ones are allocated at fresh addresses, though
  only those are still listed in the menu. \<open>removeAction\<close> detaches without deleting,
  so the store of a long-running menu grows with every refresh.
\<close>

theorem devices_callback_allocates:
  assumes "device_menu m \<noteq> None" and "dom (store m) \<subseteq> {..<next_aid m}"
  shows "store m \<subseteq>\<^sub>m store (devices_callback devices m) \<and>
         next_aid (devices_callback devices m) = next_aid m + max 1 (length devices) \<and>
         dom (store (devices_callback devices m)) =
           dom (store m) \<union> {next_aid m..<next_aid m + max 1 (length devices)} \<and>
         set (the (device_menu (devices_callback devices m))) =
           {next_aid m..<next_aid m + max 1 (length devices)}"
proof (cases "devices = []")
  case True
  have "next_aid m \<notin> dom (store m)" using assms(2) by auto
  with assms True show ?thesis
    by (auto simp: devices_callback_empty map_le_def)
next
  case False
  let ?ks = "[next_aid m..<next_aid m + length devices]"
  have disj: "dom (store m) \<inter> set ?ks = {}" using assms(2) by auto
  have "store m \<subseteq>\<^sub>m (store m)(?ks [\<mapsto>] map device_entry devices)"
    unfolding map_le_def
  proof
    fix a assume "a \<in> dom (store m)"
    with disj have "a \<notin> set ?ks" by blast
    then show "store m a = ((store m)(?ks [\<mapsto>] map device_entry devices)) a" by simp
  qed
  moreover have "max 1 (length devices) = length devices"
    using False by (cases devices) simp_all
  ultimately show ?thesis
    using assms False by (simp add: devices_callback_nonempty del: upt_Suc) (simp add: Un_commute)
qed

theorem devices_callback_allocates_witness:
  "next_aid (devices_callback [\<lparr>dev_id = ''a1'', dev_name = ''Kitchen'', dev_is_active = True\<rparr>]
     \<lparr>device_menu = Some [0], store = [0 \<mapsto> no_devices_entry], next_aid = 1, pending = [],
      window_status = None, has_window = True\<rparr>) = 2 \<and>
   dom (store (devices_callback [\<lparr>dev_id = ''a1'', dev_name = ''Kitchen'', dev_is_active = True\<rparr>]
     \<lparr>device_menu = Some [0], store = [0 \<mapsto> no_devices_entry], next_aid = 1, pending = [],
      window_status = None, has_window = True\<rparr>)) = {0, 1}"
proof -
  let ?m = "\<lparr>device_menu = Some [0], store = [0 \<mapsto> no_devices_entry], next_aid = 1, pending = [],
      window_status = None, has_window = True\<rparr>"
  have h1: "device_menu ?m \<noteq> None" by simp
  have h2: "dom (store ?m) \<subseteq> {..<next_aid ?m}" by simp
  show ?thesis
    using devices_callback_allocates [OF h1 h2, of "[\<lparr>dev_id = ''a1'', dev_name = ''Kitchen'',
      dev_is_active = True\<rparr>]"] by auto
qed

lemma update_action_other_view:
  "device_menu m = Some ids \<Longrightarrow> action \<notin> set ids \<Longrightarrow> menu_view (update_action action cs m) = menu_view m"
  by (simp add: menu_view_def update_action_def)

text \<open>
  C7: the \<open>setDevice\<close> callback on an action that is no longer listed in the submenu
  (the menu was refreshed while the request was in flight) changes nothing the user
  can see in the submenu: it only writes to the detached object.
\<close>

theorem set_device_callback_stale:
  assumes "device_menu m = Some ids" and "action \<notin> set ids"
  shows "menu_view (set_device_callback action status m) = menu_view m"
proof -
  have "menu_view (update_action action [SetChecked False] m) = menu_view m"
    and "menu_view (update_action action [SetDisabled True] m) = menu_view m"
    using assms by (simp_all add: update_action_other_view)
  then show ?thesis
    by (simp add: set_device_callback_def Let_def menu_view_def)
qed

theorem set_device_callback_stale_witness:
  "menu_view (set_device_callback 0 ''''
     \<lparr>device_menu = Some [1], store = [0 \<mapsto> no_devices_entry, 1 \<mapsto> no_devices_entry], next_aid = 2,
      pending = [], window_status = None, has_window = True\<rparr>) = Some [no_devices_entry]"
proof -
  let ?m = "\<lparr>device_menu = Some [1], store = [0 \<mapsto> no_devices_entry, 1 \<mapsto> no_devices_entry],
      next_aid = 2, pending = [], window_status = None, has_window = True\<rparr>"
  have h1: "device_menu ?m = Some [1]" by simp
  have h2: "(0::nat) \<notin> set [1]" by simp
  show ?thesis using set_device_callback_stale [OF h1 h2, of "''''"] by (simp add: menu_view_def)
qed

subsection \<open>The handlers keep the menu well-formed\<close>

lemma captured_append [simp]: "captured (xs @ ys) = captured xs \<union> captured ys"
  by (induction xs rule: captured.induct) auto

lemma captured_remove1: "captured (remove1 r xs) \<subseteq> captured xs"
  by (induction xs rule: captured.induct) auto

lemma dom_store_update_action [simp]: "dom (store (update_action action cs m)) = dom (store m)"
  by (auto simp: update_action_def)

lemma update_action_frame [simp]:
  "device_menu (update_action action cs m) = device_menu m"
  "next_aid (update_action action cs m) = next_aid m"
  "pending (update_action action cs m) = pending m"
  "has_window (update_action action cs m) = has_window m"
  by (simp_all add: update_action_def)

lemma menu_wf_frame:
  assumes "menu_wf m" and "device_menu m' = device_menu m" and "dom (store m') = dom (store m)"
    and "next_aid m' = next_aid m" and "captured (pending m') \<subseteq> dom (store m)"
  shows "menu_wf m'"
proof -
  from assms(1) obtain ids where "device_menu m = Some ids" "distinct ids" "set ids \<subseteq> dom (store m)"
    "dom (store m) = {..<next_aid m}"
    by (auto simp: menu_wf_def)
  with assms(2-5) show ?thesis
    unfolding menu_wf_def by simp
qed

lemma menu_wf_captured: "menu_wf m \<Longrightarrow> captured (pending m) \<subseteq> dom (store m)"
  unfolding menu_wf_def by blast

lemma menu_wf_window_status [simp]: "menu_wf (m\<lparr>window_status := w\<rparr>) = menu_wf m"
  by (simp add: menu_wf_def)

lemma menu_wf_update_action [intro]:
  assumes "menu_wf m" shows "menu_wf (update_action action cs m)"
  by (rule menu_wf_frame [OF assms]) (simp_all add: menu_wf_captured [OF assms])

lemma menu_wf_refresh_devices [intro]:
  assumes "menu_wf m" shows "menu_wf (refresh_devices m)"
  by (rule menu_wf_frame [OF assms]) (simp_all add: refresh_devices_def menu_wf_captured [OF assms])

lemma menu_wf_remove_pending [intro]:
  assumes "menu_wf m" shows "menu_wf (m\<lparr>pending := remove1 r (pending m)\<rparr>)"
  by (rule menu_wf_frame [OF assms])
    (use captured_remove1 [of r "pending m"] menu_wf_captured [OF assms] in auto)

lemma menu_wf_devices_callback [intro]: "menu_wf m \<Longrightarrow> menu_wf (devices_callback devices m)"
proof -
  assume wf: "menu_wf m"
  then have nn: "device_menu m \<noteq> None" by (auto simp: menu_wf_def)
  show ?thesis
  proof (cases "devices = []")
    case True
    with wf nn show ?thesis
      by (auto simp: menu_wf_def devices_callback_empty lessThan_Suc)
  next
    case False
    have "{..<next_aid m} \<union> {next_aid m..<next_aid m + length devices} = {..<next_aid m + length devices}"
      by auto
    with wf nn False show ?thesis
      by (auto simp: menu_wf_def devices_callback_nonempty simp del: upt_Suc)
  qed
qed

lemma menu_wf_trigger_action [intro]:
  assumes "menu_wf m" shows "menu_wf (trigger_action action m)"
  by (rule menu_wf_frame [OF assms])
    (use menu_wf_captured [OF assms] in \<open>auto simp: trigger_action_def\<close>)

lemma menu_wf_device_selected [intro]:
  assumes "menu_wf m" shows "menu_wf (device_selected action m)"
proof (cases "store m action")
  case None
  with assms show ?thesis by (simp add: device_selected_def)
next
  case (Some a)
  show ?thesis
    by (rule menu_wf_frame [OF assms])
      (use Some menu_wf_captured [OF assms] in \<open>auto simp: device_selected_def\<close>)
qed

lemma menu_wf_set_device_callback [intro]:
  "menu_wf m \<Longrightarrow> menu_wf (set_device_callback action status m)"
  by (simp add: set_device_callback_def Let_def menu_wf_update_action)

text \<open>
  C8: selecting an unchecked entry and the \<open>setDevice\<close> reply. Qt checks the entry, the
  slot asks Spotify for the device whose id the entry carries; on success the entry
  ends checked and disabled; on failure it is exactly as it was before the click
  (the selection is reverted) and the status bar reports the error when a main window
  exists.
\<close>

theorem device_selection_outcome:
  assumes "store m action = Some a" and "act_checkable a" and "\<not> act_checked a"
  shows "pending (device_selected action (trigger_action action m)) =
           pending m @ [SetDeviceReq action (act_data a)] \<and>
         store (set_device_callback action status (device_selected action (trigger_action action m))) action =
           Some (if status = [] then a\<lparr>act_checked := True, act_enabled := False\<rparr> else a) \<and>
         window_status (set_device_callback action status (device_selected action (trigger_action action m))) =
           (if status \<noteq> [] \<and> has_window m
            then Some (''Failed to set device: '' @ status, True) else window_status m)"
  using assms
  by (simp add: device_selected_def trigger_action_def set_device_callback_def update_action_def
      Let_def)

theorem device_selection_outcome_witness:
  "store (set_device_callback 0 ''Device not found''
     (device_selected 0 (trigger_action 0
        \<lparr>device_menu = Some [0], store = [0 \<mapsto> device_entry \<lparr>dev_id = ''b2'', dev_name = ''Laptop'',
            dev_is_active = False\<rparr>], next_aid = 1, pending = [], window_status = None,
         has_window = True\<rparr>))) 0 =
     Some (device_entry \<lparr>dev_id = ''b2'', dev_name = ''Laptop'', dev_is_active = False\<rparr>)"
proof -
  let ?a = "device_entry \<lparr>dev_id = ''b2'', dev_name = ''Laptop'', dev_is_active = False\<rparr>"
  let ?m = "\<lparr>device_menu = Some [0], store = [0 \<mapsto> ?a], next_aid = 1, pending = [],
      window_status = None, has_window = True\<rparr>"
  have h1: "store ?m 0 = Some ?a" by simp
  have h2: "act_checkable ?a" by (simp add: device_entry_def)
  have h3: "\<not> act_checked ?a" by (simp add: device_entry_def)
  show ?thesis using device_selection_outcome [OF h1 h2 h3, of "''Device not found''"] by simp
qed

end
