(* ===== verification/Settings.thy ===== *)
theory Settings
  imports Prelude
begin

text \<open>
  \<open>lib::settings\<close>, the process-wide configuration the log-out flow mutates (not in
  the excerpt; modelled from the specification: credentials and tokens with explicit
  clear operations and an explicit save). The state is the in-memory account and the
  copy last written to the settings file.
\<close>

record account =
  client_id :: string
  client_secret :: string
  access_token :: string
  refresh_token :: string

record settings =
  current :: account
  stored :: account

text \<open>\<open>remove_client()\<close>: forget the application credentials.\<close>

definition remove_client :: "settings \<Rightarrow> settings" where
  "remove_client s = s\<lparr>current := (current s)\<lparr>client_id := [], client_secret := []\<rparr>\<rparr>"

text \<open>\<open>remove_tokens()\<close>: forget the login.\<close>

definition remove_tokens :: "settings \<Rightarrow> settings" where
  "remove_tokens s = s\<lparr>current := (current s)\<lparr>access_token := [], refresh_token := []\<rparr>\<rparr>"

text \<open>\<open>save()\<close>: write the in-memory settings to the file.\<close>

definition save :: "settings \<Rightarrow> settings" where
  "save s = s\<lparr>stored := current s\<rparr>"

lemmas settings_ops = remove_client_def remove_tokens_def save_def

lemma remove_client_keeps_tokens [simp]:
  "access_token (current (remove_client s)) = access_token (current s)"
  "refresh_token (current (remove_client s)) = refresh_token (current s)"
  "stored (remove_client s) = stored s"
  by (simp_all add: remove_client_def)

lemma remove_tokens_keeps_client [simp]:
  "client_id (current (remove_tokens s)) = client_id (current s)"
  "client_secret (current (remove_tokens s)) = client_secret (current s)"
  "stored (remove_tokens s) = stored s"
  by (simp_all add: remove_tokens_def)

end
