(* ===== verification/MainMenu.thy ===== *)
theory MainMenu
  imports DeviceMenu Settings Json
begin

text \<open>
  \<open>MainMenu\<close> of \<open>src/src/menu/mainmenu.cpp\<close>: its construction (the update
  notifier, the device submenu, settings, the developer menu, log out and quit), the
  log-out flow, and the wiring of the signals to the handlers as a step relation.
  The record \<open>main_menu\<close> extends the device submenu's state with the menu's other
  members and the parts of the application the handlers change: the settings, the
  dialogs shown, and whether \<open>QCoreApplication::quit()\<close> was called.
\<close>

datatype menu_entry =
    AboutEntry | DeviceMenuEntry | SettingsEntry | DeveloperMenuEntry
  | SeparatorEntry | LogOutEntry | QuitEntry

text \<open>The three buttons of the log-out confirmation box (lines 70--72).\<close>

datatype logout_button = ClearEverything | OnlyLogOut | CancelButton

text \<open>
  What the constructor reads from its surroundings: whether the parent widget is the
  \<open>MainWindow\<close>, whether \<open>MainWindow::find\<close> finds one, \<open>APP_VERSION\<close>,
  \<open>lib::developer_mode::enabled\<close>, and the JSON answer of the release query.
\<close>

record menu_env =
  parent_is_main_window :: bool
  window_found :: bool
  app_version :: string
  developer_mode :: bool
  latest_release :: json

record main_menu = device_menu_state +
  about :: qaction
  about_opens_releases :: bool
  entries :: "menu_entry list"
  settings :: settings
  dialogs :: "(string \<times> string) list"
  quit :: bool

subsection \<open>Construction\<close>

text \<open>
  \<open>json.object()["tag_name"].toString()\<close> (line 18): the empty string when the answer
  is not an object, has no \<open>tag_name\<close>, or holds something other than a string there.
\<close>

definition tag_name_of :: "json \<Rightarrow> string" where
  "tag_name_of json = (case json_get json ''tag_name'' of Some (JString s) \<Rightarrow> s | _ \<Rightarrow> [])"

text \<open>
  The update notifier (lines 8--32): the \<open>about\<close> action, and whether its
  \<open>triggered\<close> signal was connected to opening the release page.
\<close>

definition update_notifier :: "menu_env \<Rightarrow> qaction \<times> bool" where
  "update_notifier env =
     (let about = apply_call (SetDisabled True) (new_action ''Checking for updates...'') in
      if \<not> parent_is_main_window env then (about, False)
      else
        let latest = tag_name_of (latest_release env);
            isLatest = (latest = [] \<or> latest = app_version env) in
        if latest = [] \<or> isLatest then (apply_call (SetVisible False) about, False)
        else (apply_call (SetText (''Update found: '' @ latest)) (apply_call (SetDisabled False) about),
              True))"

text \<open>The constructor (lines 3--98).\<close>

definition main_menu_init :: "menu_env \<Rightarrow> settings \<Rightarrow> main_menu" where
  "main_menu_init env st =
     (let (about, link) = update_notifier env in
      \<lparr>device_menu = Some [], store = Map.empty, next_aid = 0, pending = [],
       window_status = None, has_window = window_found env,
       about = about, about_opens_releases = link,
       entries = [AboutEntry, DeviceMenuEntry, SettingsEntry]
                 @ (if developer_mode env then [DeveloperMenuEntry] else [])
                 @ [SeparatorEntry, LogOutEntry, QuitEntry],
       settings = st, dialogs = [], quit = False\<rparr>)"

subsection \<open>Quit and log out\<close>

text \<open>
  \<open>QCoreApplication::quit()\<close>, connected to the quit action (lines 60--61) and called
  at the end of the log-out flow (line 92): the event loop stops.
\<close>

definition app_quit :: "main_menu \<Rightarrow> main_menu" where
  "app_quit m = m\<lparr>quit := True\<rparr>"

text \<open>
  The handler of the log-out action (lines 64--93), given the button the box returned
  (\<open>None\<close> for \<open>nullptr\<close>, the box closed without a button).
\<close>

definition log_out :: "logout_button option \<Rightarrow> main_menu \<Rightarrow> main_menu" where
  "log_out result m =
     (if result = None \<or> result = Some CancelButton then m
      else
        let st = settings m;
            st = (if result = Some ClearEverything then remove_client st else st);
            st = (if result = Some ClearEverything \<or> result = Some OnlyLogOut then remove_tokens st else st);
            st = save st
        in app_quit (m\<lparr>settings := st,
             dialogs := dialogs m @ [(''Logged out'', ''You are now logged out, the application will now close'')]\<rparr>))"

subsection \<open>Signals and slots\<close>

text \<open>
  The event loop delivers one event at a time, in any order the user and the network
  produce: the device submenu about to show, a devices reply, a device entry
  triggered (enabled and visible entries only), a \<open>setDevice\<close> reply for any request in
  flight, the settings dialog (whose code is not in the excerpt, so it may change the
  settings arbitrarily), log out with any button, and quit. After \<open>quit()\<close> the loop
  processes nothing more.
\<close>

inductive menu_step :: "main_menu \<Rightarrow> main_menu \<Rightarrow> bool" where
  about_to_show: "\<not> quit m \<Longrightarrow> menu_step m (refresh_devices m)"
| devices_reply: "\<not> quit m \<Longrightarrow> DevicesReq \<in> set (pending m) \<Longrightarrow>
    menu_step m (devices_callback devices (m\<lparr>pending := remove1 DevicesReq (pending m)\<rparr>))"
| device_triggered: "\<not> quit m \<Longrightarrow> device_menu m = Some ids \<Longrightarrow> action \<in> set ids \<Longrightarrow>
    store m action = Some a \<Longrightarrow> act_enabled a \<Longrightarrow> act_visible a \<Longrightarrow>
    menu_step m (device_selected action (trigger_action action m))"
| set_device_reply: "\<not> quit m \<Longrightarrow> SetDeviceReq action d \<in> set (pending m) \<Longrightarrow>
    menu_step m (set_device_callback action status
                   (m\<lparr>pending := remove1 (SetDeviceReq action d) (pending m)\<rparr>))"
| settings_dialog: "\<not> quit m \<Longrightarrow> menu_step m (m\<lparr>settings := st\<rparr>)"
| log_out_triggered: "\<not> quit m \<Longrightarrow> menu_step m (log_out result m)"
| quit_triggered: "\<not> quit m \<Longrightarrow> menu_step m (app_quit m)"

inductive menu_reachable :: "main_menu \<Rightarrow> bool" where
  init: "menu_reachable (main_menu_init env st)"
| step: "menu_reachable m \<Longrightarrow> menu_step m m' \<Longrightarrow> menu_reachable m'"

subsection \<open>Example configuration\<close>

text \<open>A menu under the main window, one release ahead of the running version.\<close>

definition example_env :: menu_env where
  "example_env = \<lparr>parent_is_main_window = True, window_found = True, app_version = ''v3.7'',
                  developer_mode = False, latest_release = JObject [(''tag_name'', JString ''v3.8'')]\<rparr>"

definition example_settings :: settings where
  "example_settings =
     \<lparr>current = \<lparr>client_id = ''id'', client_secret = ''secret'', access_token = ''at'', refresh_token = ''rt''\<rparr>,
      stored = \<lparr>client_id = ''id'', client_secret = ''secret'', access_token = ''at'', refresh_token = ''rt''\<rparr>\<rparr>"

subsection \<open>Lemmas\<close>

lemma menu_wf_main_fields [simp]:
  "menu_wf (m\<lparr>settings := st\<rparr>) = menu_wf m"
  "menu_wf (m\<lparr>quit := q\<rparr>) = menu_wf m"
  "menu_wf (m\<lparr>dialogs := ds\<rparr>) = menu_wf m"
  "menu_wf (m\<lparr>settings := st, dialogs := ds\<rparr>) = menu_wf m"
  by (simp_all add: menu_wf_def)

lemma menu_wf_app_quit [intro]: "menu_wf m \<Longrightarrow> menu_wf (app_quit m)"
  by (simp add: app_quit_def)

lemma menu_wf_log_out [intro]: "menu_wf m \<Longrightarrow> menu_wf (log_out result m)"
  by (simp add: log_out_def app_quit_def Let_def)

lemma menu_wf_init: "menu_wf (main_menu_init env st)"
  by (simp add: main_menu_init_def menu_wf_def split: prod.split)

lemma menu_step_wf: "menu_step m m' \<Longrightarrow> menu_wf m \<Longrightarrow> menu_wf m'"
  by (induction rule: menu_step.induct) auto

lemma menu_reachable_wf: "menu_reachable m \<Longrightarrow> menu_wf m"
proof (induction rule: menu_reachable.induct)
  case (init env st)
  show ?case by (rule menu_wf_init)
next
  case (step m m')
  then show ?case by (blast intro: menu_step_wf)
qed

lemma menu_wf_view: "menu_wf m \<Longrightarrow> \<exists>entries. menu_view m = Some entries"
proof -
  assume "menu_wf m"
  then obtain ids where ids: "device_menu m = Some ids" "set ids \<subseteq> dom (store m)"
    by (auto simp: menu_wf_def)
  then have "\<forall>x \<in> set ids. store m x \<noteq> None" by auto
  then have "those (map (store m) ids) \<noteq> None"
    by (induction ids) auto
  with ids show ?thesis by (auto simp: menu_view_def)
qed

text \<open>
  C9: in every state the running menu can reach, the device submenu pointer is not
  null, so the null check of the devices callback (line 105) never fires; every entry
  the submenu lists is a live action; every \<open>setDevice\<close> callback in flight captured
  a live action; and no action is ever freed (the store holds every action allocated).
\<close>

theorem reachable_menu_safe:
  assumes "menu_reachable m"
  shows "device_menu m \<noteq> None \<and> (\<exists>entries. menu_view m = Some entries) \<and>
         captured (pending m) \<subseteq> dom (store m) \<and> dom (store m) = {..<next_aid m}"
proof -
  from assms have wf: "menu_wf m" by (rule menu_reachable_wf)
  then have "\<exists>entries. menu_view m = Some entries" by (rule menu_wf_view)
  with wf show ?thesis by (auto simp: menu_wf_def)
qed

theorem reachable_menu_safe_witness:
  "device_menu (refresh_devices (main_menu_init example_env example_settings)) \<noteq> None \<and>
   dom (store (refresh_devices (main_menu_init example_env example_settings))) = {}"
proof -
  let ?m0 = "main_menu_init example_env example_settings"
  have r0: "menu_reachable ?m0" by (rule menu_reachable.init)
  have q: "\<not> quit ?m0" by (simp add: main_menu_init_def split: prod.split)
  have "menu_reachable (refresh_devices ?m0)"
    by (rule menu_reachable.step [OF r0 menu_step.about_to_show [OF q]])
  from reachable_menu_safe [OF this] show ?thesis
    by (simp add: refresh_devices_def main_menu_init_def split: prod.split)
qed

text \<open>
  C10: the log-out flow. Cancelling, or closing the box, changes nothing and keeps the
  application running. "Only log out" clears the tokens and keeps the application
  credentials; "Clear everything" clears both; either way the result is written to the
  settings file before the application quits.
\<close>

theorem log_out_outcome:
  "(settings (log_out result m), quit (log_out result m)) =
     (case result of
        Some ClearEverything \<Rightarrow>
          (let a = (current (settings m))\<lparr>client_id := [], client_secret := [],
                                          access_token := [], refresh_token := []\<rparr>
           in (\<lparr>current = a, stored = a\<rparr>, True))
      | Some OnlyLogOut \<Rightarrow>
          (let a = (current (settings m))\<lparr>access_token := [], refresh_token := []\<rparr>
           in (\<lparr>current = a, stored = a\<rparr>, True))
      | _ \<Rightarrow> (settings m, quit m))"
proof (cases result)
  case None
  then show ?thesis by (simp add: log_out_def)
next
  case (Some b)
  then show ?thesis by (cases b) (simp_all add: log_out_def app_quit_def settings_ops Let_def)
qed

text \<open>
  C11: the update notifier. The \<open>about\<close> entry becomes an enabled "Update found"
  link exactly when the parent is the main window and the release query names a tag
  other than the running version; it is hidden when the tag is empty or current; and
  when the parent is not the main window it stays visible, disabled, reading
  "Checking for updates..." for the menu's lifetime.
\<close>

theorem update_notifier_about:
  "snd (update_notifier env) =
     (parent_is_main_window env \<and> tag_name_of (latest_release env) \<noteq> []
      \<and> tag_name_of (latest_release env) \<noteq> app_version env) \<and>
   act_visible (fst (update_notifier env)) =
     (\<not> parent_is_main_window env \<or> snd (update_notifier env)) \<and>
   act_enabled (fst (update_notifier env)) = snd (update_notifier env) \<and>
   act_text (fst (update_notifier env)) =
     (if snd (update_notifier env) then ''Update found: '' @ tag_name_of (latest_release env)
      else ''Checking for updates...'')"
  by (simp add: update_notifier_def new_action_def Let_def)

theorem update_notifier_about_witness:
  "snd (update_notifier example_env) \<and> act_visible (fst (update_notifier example_env)) \<and>
   act_text (fst (update_notifier example_env)) = ''Update found: v3.8''"
  using update_notifier_about [of example_env] by (simp add: example_env_def tag_name_of_def)

end
