(* ===== verification/Spec2Isabelle.thy ===== *)
theory Spec2Isabelle
  imports Playlists MainMenu
begin

text \<open>
  A verification development for two parts of spotify-qt: the playlist wrappers of the
  Web API client (\<open>src/lib/src/spotifyapi/playlists.cpp\<close>) and the application's main
  menu (\<open>src/src/menu/mainmenu.cpp\<close>). The wrappers turn typed calls into requests
  (verb, relative URL, JSON body) and hand the answer to a single-shot callback; the
  paginated ones follow next links. The menu is Qt event wiring: an update notifier
  built at construction, a device submenu refilled from an asynchronous
  \<open>spotify.devices\<close> call each time it opens, device selection through an asynchronous
  \<open>spotify.setDevice\<close> call, a settings dialog, and log out / quit. All of it runs on
  one event loop; replies arrive later, in any order, interleaved with user events.

  \<^bold>\<open>Theories.\<close>
  \<^item> \<open>Prelude\<close>: type names, theorem collections (\<open>api_simps\<close>, \<open>menu_simps\<close>),
    \<open>split_on\<close> and lemmas on separators, association lists, \<open>fold remove1\<close>,
    \<open>map_upds\<close> and \<open>those\<close>.
  \<^item> \<open>Json\<close> (code outside src/, modelled from the specification): nlohmann JSON
    values (\<open>json\<close>), \<open>j[key] = v\<close> (\<open>json_put\<close>, with nlohmann's type error as
    \<open>Inl\<close>), \<open>lib::json::set\<close> (\<open>json_set\<close>), \<open>lib::fmt::format\<close> (\<open>fmt_format\<close>),
    \<open>lib::strings::join\<close> (\<open>strings_join\<close>), and the join/split round trip.
  \<^item> \<open>Api\<close> (outside src/): requests and the three kinds of call a wrapper makes
    (\<open>Request\<close>, \<open>GetItems\<close> for \<open>get_items\<close>, \<open>NewPagination\<close> for a cursor), and
    the service's reading of a URL (path, query parameters).
  \<^item> \<open>Playlists\<close>: one definition per wrapper, named as in the source
    (\<open>playlist\<close> is \<open>playlist_get\<close>, the two \<open>playlist_tracks\<close> overloads are
    \<open>playlist_tracks\<close> and \<open>playlist_tracks_pagination\<close>); the \<open>for\<close> loop of
    \<open>remove_from_playlist\<close> is \<open>remove_tracks_loop\<close>. Each returns the call it issues.
  \<^item> \<open>Qt\<close> (the toolkit, from its documentation): \<open>QAction\<close> properties as a record,
    the setters the source calls as a datatype \<open>action_call\<close> with their semantics
    \<open>apply_call\<close> (\<open>setChecked\<close> ignored on a non-checkable action).
  \<^item> \<open>Settings\<close> (outside src/): the account fields, \<open>remove_client\<close>,
    \<open>remove_tokens\<close>, \<open>save\<close> (the in-memory account and the copy on disk).
  \<^item> \<open>DeviceMenu\<close>: the device submenu over an explicit store of QAction objects by
    address (\<open>removeAction\<close> detaches, nothing deletes), with the requests in flight and
    what their lambdas captured: \<open>refresh_devices\<close> (refreshDevices),
    \<open>devices_callback\<close> with \<open>clear_device_menu\<close> and \<open>add_devices\<close> (its lambda),
    \<open>device_selected\<close> (deviceSelected), \<open>set_device_callback\<close> (its lambda); the
    abstract view \<open>menu_view\<close> and the invariant \<open>menu_wf\<close>. Its record
    \<open>device_menu_state\<close> is extended by \<open>main_menu\<close>, so the handlers apply to the
    full menu unchanged.
  \<^item> \<open>MainMenu\<close>: \<open>main_menu_init\<close> (the constructor) with \<open>update_notifier\<close> and
    \<open>tag_name_of\<close>; \<open>log_out\<close> and \<open>app_quit\<close>; the signal/slot wiring as the
    inductive step relation \<open>menu_step\<close> and its reachable states \<open>menu_reachable\<close>.
  \<^item> this theory: the header only; every property belongs to one component.

  \<^bold>\<open>What is proved.\<close> Wrappers: the \<open>create_playlist\<close> body holds exactly the name and
  the optional fields given (C1); the \<open>remove_from_playlist\<close> body decodes back to the
  given pairs in order (C2); the \<open>uris\<close> parameter of \<open>add_to_playlist\<close> splits back to
  the given URIs when none contains a separator (C3); every wrapper reaches its
  documented endpoint (C4). Device submenu: after a devices reply it shows exactly one
  entry per device, or the placeholder (C5, a refinement to \<open>menu_view\<close>); each reply
  allocates \<open>max 1 n\<close> actions and frees none (C6); a stale \<open>setDevice\<close> reply changes
  nothing visible (C7); selection ends checked and disabled on success and is reverted
  exactly on failure (C8). Main menu: every reachable state satisfies \<open>menu_wf\<close>: the
  submenu pointer is never null, listed and captured actions are live, nothing is
  freed (C9, by rule induction over \<open>menu_reachable\<close>); the three log-out outcomes
  (C10); the update notifier (C11).

  \<^bold>\<open>Bounds.\<close> No definition needs fuel: every recursion is structural (the loops
  over track pairs and over devices), and the menu's unbounded behaviour is the
  inductive relation \<open>menu_reachable\<close>, whose invariant holds at any depth. Track
  positions are C++ \<open>int\<close>, serialised unchanged, so they are modelled as \<open>int\<close>; no
  arithmetic is done on them. The only quantity that grows is the store of QAction
  objects: C6 bounds its growth per reply exactly.

  \<^bold>\<open>Not modelled.\<close> The HTTP transport itself and JSON text (a request is its verb,
  URL and body value); \<open>get_items\<close> and the pagination cursor, which live in the
  library outside src/ (the paginated wrappers are modelled as the call they issue
  with its first page's URL, which C4 pins); the settings dialog's and the developer menu's code (the step
  relation lets the dialog change the settings arbitrarily); opening the release page;
  icons and key sequences; the destruction of the menu (so the dangling \<open>this\<close> of a
  late callback is outside the model).

  \<^bold>\<open>Plan for later sittings.\<close> Properties of the code under src/ still open: a
  trace-level statement over \<open>menu_step\<close> of two device refreshes interleaved with a
  selection; the top-level layout \<open>main_menu_init\<close> builds; the empty-list case of
  \<open>add_to_playlist\<close> as a theorem of its own.
\<close>

end
